theory Spec2Isabelle
  imports Main
begin

section \<open>Python strings and \<open>str.replace\<close>\<close>

text \<open>
  A Python \<open>str\<close> is a sequence of Unicode code points and \<open>len\<close> counts code points,
  so page contents are modelled as lists of code points (natural numbers), not as bytes.
  File paths and model names are only handed on to the libraries and are kept as
  \<open>string\<close>.
\<close>

type_synonym pystr = "nat list"

abbreviation TAB :: nat where "TAB \<equiv> 9"
abbreviation SPACE :: nat where "SPACE \<equiv> 32"

text \<open>
  \<open>s.replace(old, new)\<close>: every non-overlapping occurrence of \<open>old\<close> in \<open>s\<close>, found from
  left to right, is replaced by \<open>new\<close>. For the empty \<open>old\<close> Python inserts \<open>new\<close>
  before every character and at the end.
\<close>

function str_replace :: "'a list \<Rightarrow> 'a list \<Rightarrow> 'a list \<Rightarrow> 'a list" where
  "str_replace old new s =
     (if old = [] then new @ concat (map (\<lambda>c. c # new) s)
      else if s = [] then []
      else if take (length old) s = old
        then new @ str_replace old new (drop (length old) s)
      else hd s # str_replace old new (tl s))"
  by pat_completeness auto
termination
  by (relation "measure (\<lambda>(old, new, s). length s)") auto

declare str_replace.simps [simp del]

section \<open>Documents and lists as objects in a store\<close>

text \<open>
  \<open>replace_tab_with_space\<close> assigns to an attribute of objects it was handed and returns
  the list it was handed, so object identity matters. Documents and lists live in a
  store and are named by references; a Python reference always points to a live object,
  hence the store is total. A document carries its \<open>page_content\<close> and its metadata,
  which the code never inspects.
\<close>

type_synonym ref = nat

record 'm document =
  page_content :: pystr
  metadata :: 'm

record 'm store =
  doc_at :: "ref \<Rightarrow> 'm document"
  list_at :: "ref \<Rightarrow> ref list"

text \<open>The documents a list object holds at the moment it is read.\<close>

definition contents :: "'m store \<Rightarrow> ref \<Rightarrow> 'm document list" where
  "contents h l = map (doc_at h) (list_at h l)"

text \<open>The assignment \<open>doc.page_content = v\<close>.\<close>

definition set_page_content :: "ref \<Rightarrow> pystr \<Rightarrow> 'm store \<Rightarrow> 'm store" where
  "set_page_content doc v h =
     h\<lparr>doc_at := (doc_at h)(doc := (doc_at h doc)\<lparr>page_content := v\<rparr>)\<rparr>"

text \<open>
  \<^verbatim>\<open>
  def replace_tab_with_space(list_of_documents):
      for doc in list_of_documents:
          doc.page_content = doc.page_content.replace('\t', ' ')
      return list_of_documents
  \<close>
  The loop body reads the document through the current store, so a document that occurs
  twice in the list is rewritten twice.
\<close>

fun replace_loop :: "ref list \<Rightarrow> 'm store \<Rightarrow> 'm store" where
  "replace_loop [] h = h"
| "replace_loop (doc # rest) h =
     replace_loop rest
       (set_page_content doc (str_replace [TAB] [SPACE] (page_content (doc_at h doc))) h)"

definition replace_tab_with_space :: "ref \<Rightarrow> 'm store \<Rightarrow> ref \<times> 'm store" where
  "replace_tab_with_space list_of_documents h =
     (list_of_documents, replace_loop (list_at h list_of_documents) h)"

section \<open>The indexing pipeline\<close>

text \<open>
  The exceptions a run can end with, named as in the error taxonomy of the design.
\<close>

datatype error =
  InvalidConfiguration | EmbeddingUnavailable | DimensionMismatch | Timeout
  | DocumentLoadFailure

text \<open>
  The PDF loader, the text splitter, the embedding model and the vector store are
  libraries the notebook imports; their code is not part of it. They are parameters of
  the model: each may raise, and the loader and the splitter allocate documents in the
  store. The vector store library is handed the documents its argument list holds when
  it is called; it keeps a collection of its own that outlives the call, which
  \<open>Chroma.from_documents\<close> reads and writes, so what the returned store holds may depend
  on earlier calls. The splitter's constructor also receives \<open>length_function=len\<close>, a
  constant.
\<close>

record ('m, 'l, 's, 'b, 'v, 'x) libraries =
  PyPDFLoader :: "string \<Rightarrow> error + 'l"
  load :: "'l \<Rightarrow> 'm store \<Rightarrow> error + (ref \<times> 'm store)"
  RecursiveCharacterTextSplitter :: "int \<Rightarrow> int \<Rightarrow> error + 's"
  split_documents :: "'s \<Rightarrow> ref \<Rightarrow> 'm store \<Rightarrow> error + (ref \<times> 'm store)"
  HuggingFaceEmbeddings :: "string \<Rightarrow> error + 'b"
  Chroma_from_documents :: "'m document list \<Rightarrow> 'b \<Rightarrow> 'x \<Rightarrow> (error + 'v) \<times> 'x"

text \<open>
  Every library call is an effect. A run records the calls in the order in which the
  code makes them, each with the documents it was handed as they were at that moment.
  Besides the object store, the world holds the collection the vector store library keeps.
\<close>

datatype 'm call =
    Call_PyPDFLoader string
  | Call_load
  | Call_RecursiveCharacterTextSplitter int int
  | Call_split_documents "'m document list"
  | Call_HuggingFaceEmbeddings string
  | Call_Chroma_from_documents "'m document list"

record ('m, 'x) world =
  heap :: "'m store"
  calls :: "'m call list"
  collection :: 'x

type_synonym ('m, 'x, 'a) prog = "('m, 'x) world \<Rightarrow> (error + 'a) \<times> ('m, 'x) world"

text \<open>Statement sequencing: an exception ends the run with the world as it is.\<close>

definition seq ::
  "('m, 'x, 'a) prog \<Rightarrow> ('a \<Rightarrow> ('m, 'x, 'b) prog) \<Rightarrow> ('m, 'x, 'b) prog" where
  "seq m f w = (case m w of (Inl e, w') \<Rightarrow> (Inl e, w') | (Inr x, w') \<Rightarrow> f x w')"

text \<open>A library call: it is recorded, then it raises or returns with an updated store.\<close>

definition call ::
  "('m store \<Rightarrow> 'm call) \<Rightarrow> ('m store \<Rightarrow> error + ('a \<times> 'm store))
     \<Rightarrow> ('m, 'x, 'a) prog" where
  "call c f w =
     (let w' = w\<lparr>calls := calls w @ [c (heap w)]\<rparr>
      in case f (heap w) of
           Inl e \<Rightarrow> (Inl e, w')
         | Inr (x, h') \<Rightarrow> (Inr x, w'\<lparr>heap := h'\<rparr>))"

text \<open>A library call that leaves the store alone.\<close>

definition reads :: "error + 'a \<Rightarrow> 'm store \<Rightarrow> error + ('a \<times> 'm store)" where
  "reads r h = (case r of Inl e \<Rightarrow> Inl e | Inr x \<Rightarrow> Inr (x, h))"

text \<open>
  A call into the vector store library: it is recorded, reads the object store, and
  raises or returns, in either case leaving its collection as the library decides.
\<close>

definition call_collection ::
  "('m store \<Rightarrow> 'm call) \<Rightarrow> ('m store \<Rightarrow> 'x \<Rightarrow> (error + 'a) \<times> 'x)
     \<Rightarrow> ('m, 'x, 'a) prog" where
  "call_collection c f w =
     (let r = f (heap w) (collection w)
      in (fst r, w\<lparr>calls := calls w @ [c (heap w)], collection := snd r\<rparr>))"

text \<open>A call of a function of the notebook itself: it cannot raise and is not recorded.\<close>

definition local_call :: "('m store \<Rightarrow> 'a \<times> 'm store) \<Rightarrow> ('m, 'x, 'a) prog" where
  "local_call f w = (case f (heap w) of (x, h') \<Rightarrow> (Inr x, w\<lparr>heap := h'\<rparr>))"

definition model_name :: string where
  "model_name = ''sentence-transformers/all-mpnet-base-v2''"

text \<open>
  \<^verbatim>\<open>
  def convert_pdf_to_embeddings(path, chunk_size=1000, chunk_overlap=200):
      loader = PyPDFLoader(path)
      documents = loader.load()
      text_splitter = RecursiveCharacterTextSplitter(
          chunk_size=chunk_size, chunk_overlap=chunk_overlap, length_function=len)
      texts = text_splitter.split_documents(documents)
      cleaned_texts = replace_tab_with_space(texts)
      embeddings = HuggingFaceEmbeddings(model_name="sentence-transformers/all-mpnet-base-v2")
      vectorstore = Chroma.from_documents(texts, embeddings)
      return vectorstore
  \<close>
\<close>

definition convert_pdf_to_embeddings ::
  "('m, 'l, 's, 'b, 'v, 'x) libraries \<Rightarrow> string \<Rightarrow> int \<Rightarrow> int \<Rightarrow> ('m, 'x, 'v) prog" where
  "convert_pdf_to_embeddings L path chunk_size chunk_overlap =
     seq (call (\<lambda>h. Call_PyPDFLoader path) (reads (PyPDFLoader L path))) (\<lambda>loader.
     seq (call (\<lambda>h. Call_load) (load L loader)) (\<lambda>documents.
     seq (call (\<lambda>h. Call_RecursiveCharacterTextSplitter chunk_size chunk_overlap)
            (reads (RecursiveCharacterTextSplitter L chunk_size chunk_overlap)))
         (\<lambda>text_splitter.
     seq (call (\<lambda>h. Call_split_documents (contents h documents))
            (split_documents L text_splitter documents)) (\<lambda>texts.
     seq (local_call (replace_tab_with_space texts)) (\<lambda>cleaned_texts.
     seq (call (\<lambda>h. Call_HuggingFaceEmbeddings model_name)
            (reads (HuggingFaceEmbeddings L model_name))) (\<lambda>embeddings.
     call_collection (\<lambda>h. Call_Chroma_from_documents (contents h texts))
       (\<lambda>h. Chroma_from_documents L (contents h texts) embeddings)))))))"

section \<open>Vocabulary of the properties\<close>

text \<open>A document after the loop body has run on it, and a document without any tab.\<close>

definition cleaned :: "'m document \<Rightarrow> 'm document" where
  "cleaned d = d\<lparr>page_content := str_replace [TAB] [SPACE] (page_content d)\<rparr>"

definition tab_free :: "'m document \<Rightarrow> bool" where
  "tab_free d = (TAB \<notin> set (page_content d))"

section \<open>A concrete set of libraries\<close>

text \<open>
  Stand-ins for the imported libraries, used to run the pipeline on concrete inputs:
  a loader that yields one page holding \<open>a<TAB>b\<close>; a splitter whose constructor
  raises exactly when \<open>chunk_overlap\<close> is larger than \<open>chunk_size\<close> (equal sizes are
  accepted) and which returns the first page as a single new chunk; an embedding model;
  and a vector store library that adds the documents it is given to its collection and
  returns a store holding the whole collection.
\<close>

definition empty_world :: "(unit, unit document list) world" where
  "empty_world =
     \<lparr>heap = \<lparr>doc_at = (\<lambda>r. \<lparr>page_content = [], metadata = ()\<rparr>), list_at = (\<lambda>r. [])\<rparr>,
      calls = [],
      collection = []\<rparr>"

text \<open>The world after an earlier run has left the chunk \<open>c\<close> in the collection.\<close>

definition used_world :: "(unit, unit document list) world" where
  "used_world = empty_world\<lparr>collection := [\<lparr>page_content = [99], metadata = ()\<rparr>]\<rparr>"

definition load_page :: "unit store \<Rightarrow> unit store" where
  "load_page h =
     h\<lparr>doc_at := (doc_at h)(1 := \<lparr>page_content = [97, TAB, 98], metadata = ()\<rparr>),
       list_at := (list_at h)(0 := [1])\<rparr>"

definition one_page_loader :: "string \<Rightarrow> unit store \<Rightarrow> error + (ref \<times> unit store)" where
  "one_page_loader loader h = Inr (0, load_page h)"

definition chunk_first_page :: "ref \<Rightarrow> unit store \<Rightarrow> unit store" where
  "chunk_first_page documents h =
     (case list_at h documents of
        [] \<Rightarrow> h\<lparr>list_at := (list_at h)(2 := [])\<rparr>
      | page # _ \<Rightarrow>
          h\<lparr>doc_at := (doc_at h)(3 := doc_at h page), list_at := (list_at h)(2 := [3])\<rparr>)"

definition first_page_splitter ::
  "int \<times> int \<Rightarrow> ref \<Rightarrow> unit store \<Rightarrow> error + (ref \<times> unit store)" where
  "first_page_splitter text_splitter documents h = Inr (2, chunk_first_page documents h)"

definition checked_splitter :: "int \<Rightarrow> int \<Rightarrow> error + (int \<times> int)" where
  "checked_splitter chunk_size chunk_overlap =
     (if chunk_overlap > chunk_size then Inl InvalidConfiguration
      else Inr (chunk_size, chunk_overlap))"

definition collecting_store ::
  "unit document list \<Rightarrow> string \<Rightarrow> unit document list
     \<Rightarrow> (error + unit document list) \<times> unit document list" where
  "collecting_store ds embeddings coll = (Inr (coll @ ds), coll @ ds)"

definition demo_libraries ::
  "(unit, string, int \<times> int, string, unit document list, unit document list) libraries"
  where
  "demo_libraries =
     \<lparr>PyPDFLoader = (\<lambda>path. Inr path),
      load = one_page_loader,
      RecursiveCharacterTextSplitter = checked_splitter,
      split_documents = first_page_splitter,
      HuggingFaceEmbeddings = (\<lambda>name. Inr name),
      Chroma_from_documents = collecting_store\<rparr>"

text \<open>A store whose list object 0 holds document 1 twice and document 2 once.\<close>

definition shared_store :: "unit store" where
  "shared_store =
     \<lparr>doc_at = (\<lambda>r. \<lparr>page_content = [], metadata = ()\<rparr>)
         (1 := \<lparr>page_content = [97, TAB, 98], metadata = ()\<rparr>,
          2 := \<lparr>page_content = [TAB, TAB], metadata = ()\<rparr>),
      list_at = (\<lambda>r. [])(0 := [1, 2, 1])\<rparr>"

text \<open>
  A store whose list object 0 holds a document with two tabs and a document with the
  empty page content.
\<close>

definition tabbed_store :: "unit store" where
  "tabbed_store =
     \<lparr>doc_at = (\<lambda>r. \<lparr>page_content = [TAB], metadata = ()\<rparr>)
         (1 := \<lparr>page_content = [97, TAB, 98, TAB], metadata = ()\<rparr>,
          2 := \<lparr>page_content = [], metadata = ()\<rparr>),
      list_at = (\<lambda>r. [])(0 := [1, 2])\<rparr>"

lemmas run_defs = convert_pdf_to_embeddings_def seq_def call_def call_collection_def
  reads_def local_call_def replace_tab_with_space_def contents_def set_page_content_def

lemmas demo_defs = demo_libraries_def empty_world_def used_world_def load_page_def
  one_page_loader_def chunk_first_page_def first_page_splitter_def checked_splitter_def
  collecting_store_def shared_store_def tabbed_store_def

section \<open>Replacing one character by one character\<close>

lemma str_replace_Nil: "str_replace [a] [b] [] = []"
  by (simp add: str_replace.simps)

lemma str_replace_Cons:
  "str_replace [a] [b] (c # cs) = (if c = a then b else c) # str_replace [a] [b] cs"
  by (subst str_replace.simps) simp

lemma str_replace_char_map:
  "str_replace [a] [b] s = map (\<lambda>c. if c = a then b else c) s"
  by (induction s) (simp_all add: str_replace_Nil str_replace_Cons)

lemma str_replace_char_length: "length (str_replace [a] [b] s) = length s"
  by (simp add: str_replace_char_map)

lemma str_replace_char_nth:
  "i < length s \<Longrightarrow> str_replace [a] [b] s ! i = (if s ! i = a then b else s ! i)"
  by (simp add: str_replace_char_map)

lemma str_replace_char_free: "a \<noteq> b \<Longrightarrow> a \<notin> set (str_replace [a] [b] s)"
  by (auto simp: str_replace_char_map)

lemma str_replace_char_id: "a \<notin> set s \<Longrightarrow> str_replace [a] [b] s = s"
  by (induction s) (auto simp: str_replace_Nil str_replace_Cons)

lemma str_replace_char_idem:
  "a \<noteq> b \<Longrightarrow> str_replace [a] [b] (str_replace [a] [b] s) = str_replace [a] [b] s"
  by (simp add: str_replace_char_id str_replace_char_free)

section \<open>The loop of \<open>replace_tab_with_space\<close>\<close>

lemma tab_free_cleaned: "tab_free (cleaned d)"
  by (simp add: tab_free_def cleaned_def str_replace_char_free)

lemma cleaned_idem: "cleaned (cleaned d) = cleaned d"
  by (simp add: cleaned_def str_replace_char_idem)

lemma set_page_content_cleaned:
  "set_page_content r (str_replace [TAB] [SPACE] (page_content (doc_at h r))) h
     = h\<lparr>doc_at := (doc_at h)(r := cleaned (doc_at h r))\<rparr>"
  by (simp add: set_page_content_def cleaned_def)

lemma replace_loop_list_at: "list_at (replace_loop rs h) = list_at h"
  by (induction rs arbitrary: h) (simp_all add: set_page_content_def)

text \<open>
  A document named several times in the list is rewritten several times; the second
  rewriting finds no tab and changes nothing.
\<close>

lemma replace_loop_doc_at:
  "doc_at (replace_loop rs h) r = (if r \<in> set rs then cleaned (doc_at h r) else doc_at h r)"
proof (induction rs arbitrary: h)
  case Nil
  show ?case by simp
next
  case (Cons a rs)
  show ?case
    by (simp add: Cons.IH set_page_content_cleaned cleaned_idem)
qed

lemma contents_replace_loop:
  "contents (replace_loop (list_at h l) h) l = map cleaned (contents h l)"
  by (simp add: contents_def replace_loop_list_at replace_loop_doc_at)

lemma replace_tab_with_space_doc:
  "r \<in> set (list_at h l) \<Longrightarrow>
     doc_at (snd (replace_tab_with_space l h)) r = cleaned (doc_at h r)"
  by (simp add: replace_tab_with_space_def replace_loop_doc_at)

section \<open>Normalisation of the page contents\<close>

text \<open>
  C7, as the specification states it, fails: the normalisation is not pure. The code
  normalises by assigning to the documents it was handed, so after the call the caller's
  own document 1 no longer holds the text it held before.
\<close>

theorem normalization_pure_counterexample:
  "page_content (doc_at tabbed_store 1) = [97, TAB, 98, TAB]
   \<and> page_content (doc_at (snd (replace_tab_with_space 0 tabbed_store)) 1)
       = [97, SPACE, 98, SPACE]
   \<and> doc_at (snd (replace_tab_with_space 0 tabbed_store)) 1 \<noteq> doc_at tabbed_store 1"
  by (simp add: replace_tab_with_space_def set_page_content_def tabbed_store_def
      str_replace_Nil str_replace_Cons)

text \<open>
  C7 (amended). \<open>replace_tab_with_space\<close> succeeds on every list of documents, whatever
  their page contents, the empty string included, and normalises in place: for every
  document of the list, the page content after the call has the same number of
  characters as before, holds a space at every position that held a tab and the old
  character at every other position, and holds no tab; the metadata is untouched. The
  outcome is a function of the input alone: two stores that agree on the list and on the
  listed documents give the same returned reference and the same documents in the list.
\<close>

theorem replace_tab_with_space_normalizes:
  "(\<forall>r \<in> set (list_at h l).
      length (page_content (doc_at (snd (replace_tab_with_space l h)) r))
        = length (page_content (doc_at h r))
      \<and> (\<forall>i < length (page_content (doc_at h r)).
            page_content (doc_at (snd (replace_tab_with_space l h)) r) ! i =
              (if page_content (doc_at h r) ! i = TAB then SPACE
               else page_content (doc_at h r) ! i))
      \<and> TAB \<notin> set (page_content (doc_at (snd (replace_tab_with_space l h)) r))
      \<and> (page_content (doc_at h r) = []
            \<longrightarrow> page_content (doc_at (snd (replace_tab_with_space l h)) r) = [])
      \<and> metadata (doc_at (snd (replace_tab_with_space l h)) r) = metadata (doc_at h r))
   \<and> (list_at h l = list_at h' l \<and> (\<forall>r \<in> set (list_at h l). doc_at h r = doc_at h' r)
        \<longrightarrow> fst (replace_tab_with_space l h) = fst (replace_tab_with_space l h')
          \<and> contents (snd (replace_tab_with_space l h)) l
              = contents (snd (replace_tab_with_space l h')) l)"
proof (intro conjI ballI impI)
  fix r
  assume r: "r \<in> set (list_at h l)"
  let ?old = "page_content (doc_at h r)"
  let ?new = "page_content (doc_at (snd (replace_tab_with_space l h)) r)"
  have new: "?new = str_replace [TAB] [SPACE] ?old"
    by (simp add: replace_tab_with_space_doc [OF r] cleaned_def)
  show "length ?new = length ?old"
    by (simp add: new str_replace_char_length)
  show "\<forall>i < length ?old. ?new ! i = (if ?old ! i = TAB then SPACE else ?old ! i)"
    by (simp add: new str_replace_char_nth)
  show "TAB \<notin> set ?new"
    by (simp add: new str_replace_char_free)
  show "metadata (doc_at (snd (replace_tab_with_space l h)) r) = metadata (doc_at h r)"
    by (simp add: replace_tab_with_space_doc [OF r] cleaned_def)
  show "?new = []" if "?old = []"
    using that by (simp add: new str_replace_Nil)
next
  assume same: "list_at h l = list_at h' l \<and> (\<forall>r \<in> set (list_at h l). doc_at h r = doc_at h' r)"
  show "fst (replace_tab_with_space l h) = fst (replace_tab_with_space l h')"
    by (simp add: replace_tab_with_space_def)
  have "contents h l = contents h' l"
    using same by (simp add: contents_def)
  then show "contents (snd (replace_tab_with_space l h)) l
      = contents (snd (replace_tab_with_space l h')) l"
    by (simp add: replace_tab_with_space_def contents_replace_loop)
qed

theorem replace_tab_with_space_normalizes_witness:
  "list_at tabbed_store 0 = [1, 2]
   \<and> page_content (doc_at tabbed_store 1) = [97, TAB, 98, TAB]
   \<and> length (page_content (doc_at (snd (replace_tab_with_space 0 tabbed_store)) 1)) = 4
   \<and> page_content (doc_at (snd (replace_tab_with_space 0 tabbed_store)) 1) ! 1 = SPACE
   \<and> page_content (doc_at (snd (replace_tab_with_space 0 tabbed_store)) 1) ! 2 = 98
   \<and> TAB \<notin> set (page_content (doc_at (snd (replace_tab_with_space 0 tabbed_store)) 1))
   \<and> page_content (doc_at tabbed_store 2) = []
   \<and> page_content (doc_at (snd (replace_tab_with_space 0 tabbed_store)) 2) = []
   \<and> contents (snd (replace_tab_with_space 0 tabbed_store)) 0
       = contents (snd (replace_tab_with_space 0
           (tabbed_store\<lparr>doc_at := (doc_at tabbed_store)(7 := doc_at tabbed_store 1)\<rparr>))) 0"
proof -
  let ?h' = "tabbed_store\<lparr>doc_at := (doc_at tabbed_store)(7 := doc_at tabbed_store 1)\<rparr>"
  note t = replace_tab_with_space_normalizes [of tabbed_store 0 ?h']
  have l: "list_at tabbed_store 0 = [1, 2]"
    by (simp add: tabbed_store_def)
  have p1: "page_content (doc_at tabbed_store 1) = [97, TAB, 98, TAB]"
    by (simp add: tabbed_store_def)
  have p2: "page_content (doc_at tabbed_store 2) = []"
    by (simp add: tabbed_store_def)
  have in1: "1 \<in> set (list_at tabbed_store 0)" and in2: "2 \<in> set (list_at tabbed_store 0)"
    by (simp_all add: l)
  have same: "list_at tabbed_store 0 = list_at ?h' 0
      \<and> (\<forall>r \<in> set (list_at tabbed_store 0). doc_at tabbed_store r = doc_at ?h' r)"
    by (simp add: l)
  from t in1 have d1:
    "length (page_content (doc_at (snd (replace_tab_with_space 0 tabbed_store)) 1))
       = length (page_content (doc_at tabbed_store 1))
     \<and> (\<forall>i < length (page_content (doc_at tabbed_store 1)).
          page_content (doc_at (snd (replace_tab_with_space 0 tabbed_store)) 1) ! i =
            (if page_content (doc_at tabbed_store 1) ! i = TAB then SPACE
             else page_content (doc_at tabbed_store 1) ! i))
     \<and> TAB \<notin> set (page_content (doc_at (snd (replace_tab_with_space 0 tabbed_store)) 1))"
    by blast
  from t in2 p2 have d2:
    "page_content (doc_at (snd (replace_tab_with_space 0 tabbed_store)) 2) = []"
    by blast
  from t same have d3: "contents (snd (replace_tab_with_space 0 tabbed_store)) 0
       = contents (snd (replace_tab_with_space 0 ?h')) 0"
    by blast
  from d1 p1 have
    "length (page_content (doc_at (snd (replace_tab_with_space 0 tabbed_store)) 1)) = 4"
    "page_content (doc_at (snd (replace_tab_with_space 0 tabbed_store)) 1) ! 1 = SPACE"
    "page_content (doc_at (snd (replace_tab_with_space 0 tabbed_store)) 1) ! 2 = 98"
    "TAB \<notin> set (page_content (doc_at (snd (replace_tab_with_space 0 tabbed_store)) 1))"
    by simp_all
  with l p1 p2 d2 d3 show ?thesis
    by simp
qed

section \<open>Runs of the pipeline\<close>

lemma convert_success:
  assumes "PyPDFLoader L path = Inr loader"
    and "load L loader (heap w) = Inr (documents, h1)"
    and "RecursiveCharacterTextSplitter L chunk_size chunk_overlap = Inr text_splitter"
    and "split_documents L text_splitter documents h1 = Inr (texts, h2)"
    and "HuggingFaceEmbeddings L model_name = Inr embeddings"
  shows "convert_pdf_to_embeddings L path chunk_size chunk_overlap w =
     (fst (Chroma_from_documents L (map cleaned (contents h2 texts)) embeddings
             (collection w)),
      \<lparr>heap = replace_loop (list_at h2 texts) h2,
       calls = calls w @
         [Call_PyPDFLoader path, Call_load,
          Call_RecursiveCharacterTextSplitter chunk_size chunk_overlap,
          Call_split_documents (contents h1 documents),
          Call_HuggingFaceEmbeddings model_name,
          Call_Chroma_from_documents (map cleaned (contents h2 texts))],
       collection = snd (Chroma_from_documents L (map cleaned (contents h2 texts))
                           embeddings (collection w))\<rparr>)"
  using assms
  by (simp add: convert_pdf_to_embeddings_def seq_def call_def call_collection_def
      reads_def local_call_def replace_tab_with_space_def contents_replace_loop Let_def)





section \<open>Configuration errors\<close>




section \<open>Order of chunking and cleaning\<close>

text \<open>
  C6, as the specification states it, fails. On a page holding \<open>a<TAB>b\<close> the splitter
  is handed the page with its tab: the text is chunked first, and the tab is replaced in
  the chunk afterwards.
\<close>

theorem normalize_before_chunking_counterexample:
  "calls (snd (convert_pdf_to_embeddings demo_libraries ''doc.pdf'' 500 50 empty_world))
     = [Call_PyPDFLoader ''doc.pdf'', Call_load,
        Call_RecursiveCharacterTextSplitter 500 50,
        Call_split_documents [\<lparr>page_content = [97, TAB, 98], metadata = ()\<rparr>],
        Call_HuggingFaceEmbeddings model_name,
        Call_Chroma_from_documents [\<lparr>page_content = [97, SPACE, 98], metadata = ()\<rparr>]]
   \<and> \<not> tab_free \<lparr>page_content = [97, TAB, 98], metadata = ()\<rparr>"
  by (simp add: run_defs demo_defs tab_free_def str_replace_Nil str_replace_Cons)

text \<open>
  C6 (amended). When every library call up to the vector store succeeds,
  \<open>convert_pdf_to_embeddings\<close> hands the loaded pages to the splitter as they are, then
  replaces the tabs in every chunk the splitter returned, and only then calls
  \<open>Chroma.from_documents\<close>, on exactly those cleaned chunks, each of which is free of
  tabs, and on the embedding model. Its result is the result of that call made on the
  collection the library held before the run, and the collection after the run is the
  one that call leaves. Nothing is stated about the returned store being fresh: what it
  holds besides the chunks of this run is the library's business.
\<close>

theorem chunks_cleaned_after_splitting:
  assumes "PyPDFLoader L path = Inr loader"
    and "load L loader (heap w) = Inr (documents, h1)"
    and "RecursiveCharacterTextSplitter L chunk_size chunk_overlap = Inr text_splitter"
    and "split_documents L text_splitter documents h1 = Inr (texts, h2)"
    and "HuggingFaceEmbeddings L model_name = Inr embeddings"
  shows "calls (snd (convert_pdf_to_embeddings L path chunk_size chunk_overlap w)) =
       calls w @
         [Call_PyPDFLoader path, Call_load,
          Call_RecursiveCharacterTextSplitter chunk_size chunk_overlap,
          Call_split_documents (contents h1 documents),
          Call_HuggingFaceEmbeddings model_name,
          Call_Chroma_from_documents (map cleaned (contents h2 texts))]
     \<and> fst (convert_pdf_to_embeddings L path chunk_size chunk_overlap w) =
         fst (Chroma_from_documents L (map cleaned (contents h2 texts)) embeddings
                (collection w))
     \<and> collection (snd (convert_pdf_to_embeddings L path chunk_size chunk_overlap w)) =
         snd (Chroma_from_documents L (map cleaned (contents h2 texts)) embeddings
                (collection w))
     \<and> list_all tab_free (map cleaned (contents h2 texts))"
  by (simp add: convert_success [OF assms] list_all_iff tab_free_cleaned)

text \<open>
  The run below starts in a world whose collection already holds a chunk of an earlier
  run; with a library that keeps its collection, the returned store holds that chunk too.
\<close>

theorem chunks_cleaned_after_splitting_witness:
  "PyPDFLoader demo_libraries ''doc.pdf'' = Inr ''doc.pdf''
   \<and> load demo_libraries ''doc.pdf'' (heap used_world) = Inr (0, load_page (heap used_world))
   \<and> RecursiveCharacterTextSplitter demo_libraries 500 50 = Inr (500, 50)
   \<and> split_documents demo_libraries (500, 50) 0 (load_page (heap used_world))
       = Inr (2, chunk_first_page 0 (load_page (heap used_world)))
   \<and> HuggingFaceEmbeddings demo_libraries model_name = Inr model_name
   \<and> calls (snd (convert_pdf_to_embeddings demo_libraries ''doc.pdf'' 500 50 used_world))
       = [Call_PyPDFLoader ''doc.pdf'', Call_load,
          Call_RecursiveCharacterTextSplitter 500 50,
          Call_split_documents [\<lparr>page_content = [97, TAB, 98], metadata = ()\<rparr>],
          Call_HuggingFaceEmbeddings model_name,
          Call_Chroma_from_documents [\<lparr>page_content = [97, SPACE, 98], metadata = ()\<rparr>]]
   \<and> fst (convert_pdf_to_embeddings demo_libraries ''doc.pdf'' 500 50 used_world)
       = Inr [\<lparr>page_content = [99], metadata = ()\<rparr>,
              \<lparr>page_content = [97, SPACE, 98], metadata = ()\<rparr>]
   \<and> collection (snd (convert_pdf_to_embeddings demo_libraries ''doc.pdf'' 500 50 used_world))
       = [\<lparr>page_content = [99], metadata = ()\<rparr>,
          \<lparr>page_content = [97, SPACE, 98], metadata = ()\<rparr>]"
proof -
  let ?h1 = "load_page (heap used_world)"
  let ?h2 = "chunk_first_page 0 ?h1"
  have a: "PyPDFLoader demo_libraries ''doc.pdf'' = Inr ''doc.pdf''"
    by (simp add: demo_libraries_def)
  have b: "load demo_libraries ''doc.pdf'' (heap used_world) = Inr (0, ?h1)"
    by (simp add: demo_libraries_def one_page_loader_def)
  have c: "RecursiveCharacterTextSplitter demo_libraries 500 50 = Inr (500, 50)"
    by (simp add: demo_libraries_def checked_splitter_def)
  have d: "split_documents demo_libraries (500, 50) 0 ?h1 = Inr (2, ?h2)"
    by (simp add: demo_libraries_def first_page_splitter_def)
  have e: "HuggingFaceEmbeddings demo_libraries model_name = Inr model_name"
    by (simp add: demo_libraries_def)
  have raw: "contents ?h1 0 = [\<lparr>page_content = [97, TAB, 98], metadata = ()\<rparr>]"
    by (simp add: contents_def load_page_def)
  have f: "map cleaned (contents ?h2 2) = [\<lparr>page_content = [97, SPACE, 98], metadata = ()\<rparr>]"
    by (simp add: contents_def chunk_first_page_def load_page_def cleaned_def
        str_replace_Nil str_replace_Cons)
  have g: "Chroma_from_documents demo_libraries ds model_name (collection used_world)
      = (Inr ([\<lparr>page_content = [99], metadata = ()\<rparr>] @ ds),
         [\<lparr>page_content = [99], metadata = ()\<rparr>] @ ds)" for ds
    by (simp add: demo_libraries_def collecting_store_def used_world_def)
  have nil: "calls used_world = []"
    by (simp add: used_world_def empty_world_def)
  from chunks_cleaned_after_splitting [OF a b c d e] a b c d e raw f g nil show ?thesis
    by simp
qed

section \<open>The cleaned list is the list that is stored\<close>



end
